theory Spec2Isabelle
  imports Complex_Main
begin

section \<open>Python values\<close>

text \<open>
  The extractor record, the scraped Spotify payload and the search results are untyped
  JSON-like Python values. A finite float is read as the rational it denotes (every double
  is a rational); the three non-finite floats are separate constructors. A dictionary is an
  association list with string keys, looked up from the front (a Python dictionary holds
  each key once, so there the order of the entries does not matter for a lookup).

  A \<open>char\<close> is read as the code point of the same number (0 to 255).
\<close>

datatype pyfloat = Finite rat | PosInf | NegInf | NaN

datatype pyval =
    PNone
  | PBool bool
  | PInt int
  | PFloat pyfloat
  | PStr string
  | PList "pyval list"
  | PDict "(string \<times> pyval) list"

type_synonym pydict = "(string \<times> pyval) list"

datatype exn =
    ValueError string
  | AttributeError
  | TypeError
  | OverflowError
  | PlainException string
  | LibraryError string
  | KeyboardInterrupt
  | SystemExit


text \<open>Truth value of a Python object, as \<open>if x\<close>, \<open>x or y\<close> and \<open>not x\<close> test it.\<close>

fun truthy :: "pyval \<Rightarrow> bool" where
  "truthy PNone = False"
| "truthy (PBool b) = b"
| "truthy (PInt i) = (i \<noteq> 0)"
| "truthy (PFloat (Finite r)) = (r \<noteq> 0)"
| "truthy (PFloat _) = True"
| "truthy (PStr s) = (s \<noteq> [])"
| "truthy (PList xs) = (xs \<noteq> [])"
| "truthy (PDict d) = (d \<noteq> [])"

definition py_or :: "pyval \<Rightarrow> pyval \<Rightarrow> pyval" where
  "py_or a b = (if truthy a then a else b)"

text \<open>\<open>d.get(k)\<close> on a dictionary: the value, or \<open>None\<close> for a missing key.\<close>

definition dget :: "pydict \<Rightarrow> string \<Rightarrow> pyval" where
  "dget d k = (case map_of d k of None \<Rightarrow> PNone | Some v \<Rightarrow> v)"

text \<open>\<open>x.get(k)\<close> on any object: only a dictionary has the method.\<close>

fun py_get :: "pyval \<Rightarrow> string \<Rightarrow> exn + pyval" where
  "py_get (PDict d) k = Inr (dget d k)"
| "py_get _ k = Inl AttributeError"

text \<open>
  \<open>int(x)\<close>. A float is truncated towards zero, a non-finite float raises, a string is
  parsed by the interpreter (the parser is a parameter: \<open>None\<close> is its \<open>ValueError\<close>),
  a container or \<open>None\<close> raises \<open>TypeError\<close>.
\<close>

fun py_int :: "(string \<Rightarrow> int option) \<Rightarrow> pyval \<Rightarrow> exn + int" where
  "py_int ios (PInt i) = Inr i"
| "py_int ios (PBool b) = Inr (if b then 1 else 0)"
| "py_int ios (PFloat (Finite r)) = Inr (if r < 0 then - \<lfloor>- r\<rfloor> else \<lfloor>r\<rfloor>)"
| "py_int ios (PFloat NaN) = Inl (ValueError ''cannot convert float NaN to integer'')"
| "py_int ios (PFloat _) = Inl OverflowError"
| "py_int ios (PStr s) =
     (case ios s of None \<Rightarrow> Inl (ValueError ''invalid literal for int()'') | Some i \<Rightarrow> Inr i)"
| "py_int ios _ = Inl TypeError"

section \<open>Strings\<close>

text \<open>\<open>str.isspace\<close> on the code points below 256.\<close>

definition is_space :: "char \<Rightarrow> bool" where
  "is_space c = (c \<in> set [CHR 0x09, CHR 0x0A, CHR 0x0B, CHR 0x0C, CHR 0x0D,
                          CHR 0x1C, CHR 0x1D, CHR 0x1E, CHR 0x1F, CHR 0x20,
                          CHR 0x85, CHR 0xA0])"

text \<open>\<open>s.strip()\<close>\<close>

definition strip :: "string \<Rightarrow> string" where
  "strip s = rev (dropWhile is_space (rev (dropWhile is_space s)))"

text \<open>\<open>x.strip()\<close> on any object: only a string has the method.\<close>

fun py_strip :: "pyval \<Rightarrow> exn + string" where
  "py_strip (PStr s) = Inr (strip s)"
| "py_strip _ = Inl AttributeError"

text \<open>\<open>str.lower\<close> and \<open>str.isalnum\<close> on the code points below 256.\<close>

definition lower_char :: "char \<Rightarrow> char" where
  "lower_char c =
     (let n = (of_char c :: nat)
      in if (65 \<le> n \<and> n \<le> 90) \<or> (192 \<le> n \<and> n \<le> 222 \<and> n \<noteq> 215)
         then char_of (n + 32) else c)"

definition lower :: "string \<Rightarrow> string" where
  "lower s = map lower_char s"

definition alnum_char :: "char \<Rightarrow> bool" where
  "alnum_char c =
     (let n = (of_char c :: nat)
      in (48 \<le> n \<and> n \<le> 57) \<or> (65 \<le> n \<and> n \<le> 90) \<or> (97 \<le> n \<and> n \<le> 122) \<or>
         n \<in> set [170, 178, 179, 181, 185, 186, 188, 189, 190] \<or>
         (192 \<le> n \<and> n \<le> 214) \<or> (216 \<le> n \<and> n \<le> 246) \<or> (248 \<le> n \<and> n \<le> 255))"

definition isalnum :: "string \<Rightarrow> bool" where
  "isalnum s = (s \<noteq> [] \<and> list_all alnum_char s)"

text \<open>\<open>s.split(d)\<close> for a one-character separator: never an empty list.\<close>

fun split_on :: "char \<Rightarrow> string \<Rightarrow> string list" where
  "split_on d [] = [[]]"
| "split_on d (c # cs) =
     (if c = d then [] # split_on d cs
      else (case split_on d cs of [] \<Rightarrow> [[c]] | p # ps \<Rightarrow> (c # p) # ps))"

text \<open>\<open>" ".join(xs)\<close>\<close>

fun join_space :: "string list \<Rightarrow> string" where
  "join_space [] = []"
| "join_space [x] = x"
| "join_space (x # y # ys) = x @ '' '' @ join_space (y # ys)"

text \<open>\<open>str(n)\<close> for a natural number, as an f-string prints a status code.\<close>

fun str_nat :: "nat \<Rightarrow> string" where
  "str_nat n =
     (if n < 10 then [char_of (48 + n)]
      else str_nat (n div 10) @ [char_of (48 + n mod 10)])"

declare str_nat.simps [simp del]

section \<open>Thumbnail selection\<close>

text \<open>The local helpers \<open>_dims\<close>, \<open>_area\<close> and \<open>_is_square\<close> of \<open>download\<close>.\<close>

fun dims :: "(string \<Rightarrow> int option) \<Rightarrow> pyval \<Rightarrow> int \<times> int" where
  "dims ios (PDict t) =
     (let w = py_or (dget t ''width'') (PInt 0);
          h = py_or (dget t ''height'') (PInt 0)
      in case py_int ios w of
           Inl e \<Rightarrow> (0, 0)
         | Inr wi \<Rightarrow> (case py_int ios h of Inl e \<Rightarrow> (0, 0) | Inr hi \<Rightarrow> (wi, hi)))"
| "dims ios _ = (0, 0)"

definition area :: "(string \<Rightarrow> int option) \<Rightarrow> pyval \<Rightarrow> int" where
  "area ios t = (case dims ios t of (w, h) \<Rightarrow> w * h)"

definition is_square :: "(string \<Rightarrow> int option) \<Rightarrow> pyval \<Rightarrow> bool" where
  "is_square ios t = (case dims ios t of (w, h) \<Rightarrow> w > 0 \<and> h > 0 \<and> \<bar>w - h\<bar> \<le> 2)"

text \<open>
  \<open>max(xs, key=f)\<close>: the running maximum is replaced only by a strictly greater key, and
  an empty sequence raises.
\<close>

fun max_from :: "('a \<Rightarrow> int) \<Rightarrow> 'a \<Rightarrow> 'a list \<Rightarrow> 'a" where
  "max_from key best [] = best"
| "max_from key best (x # xs) = max_from key (if key best < key x then x else best) xs"

fun py_max :: "('a \<Rightarrow> int) \<Rightarrow> 'a list \<Rightarrow> exn + 'a" where
  "py_max key [] = Inl (ValueError ''max() arg is an empty sequence'')"
| "py_max key (x # xs) = Inr (max_from key x xs)"

fun is_list :: "pyval \<Rightarrow> bool" where
  "is_list (PList xs) = True"
| "is_list _ = False"

fun is_dict :: "pyval \<Rightarrow> bool" where
  "is_dict (PDict d) = True"
| "is_dict _ = False"

fun items :: "pyval \<Rightarrow> pyval list" where
  "items (PList xs) = xs"
| "items _ = []"

text \<open>Lines 139 to 145: \<open>thumbnail_info\<close> for the candidate list \<open>thumbnails\<close>.\<close>

definition select_thumbnail :: "(string \<Rightarrow> int option) \<Rightarrow> pyval list \<Rightarrow> exn + pyval" where
  "select_thumbnail ios thumbnails =
     (let square_thumbs = filter (is_square ios) thumbnails
      in if square_thumbs \<noteq> [] then py_max (area ios) square_thumbs
         else py_max (area ios) thumbnails)"

text \<open>
  Lines 116 to 149: the chosen \<open>thumbnail_info\<close> (\<open>None\<close> when the scalar field is used)
  and \<open>thumbnail_url\<close>. Reading \<open>url\<close> off a chosen candidate that is true and not a
  dictionary raises.
\<close>

definition choose_thumbnail :: "(string \<Rightarrow> int option) \<Rightarrow> pydict \<Rightarrow> exn + (pyval \<times> pyval)" where
  "choose_thumbnail ios info =
     (let thumbnails = py_or (dget info ''thumbnails'') (PList [])
      in if is_list thumbnails \<and> truthy thumbnails then
           (case select_thumbnail ios (items thumbnails) of
              Inl e \<Rightarrow> Inl e
            | Inr thumbnail_info \<Rightarrow>
                (case py_get (py_or thumbnail_info (PDict [])) ''url'' of
                   Inl e \<Rightarrow> Inl e
                 | Inr thumbnail_url \<Rightarrow> Inr (thumbnail_info, thumbnail_url)))
         else Inr (PNone, dget info ''thumbnail''))"

text \<open>Lines 151 to 162: the dimensions read back from the chosen thumbnail.\<close>

fun num_to_int :: "pyval \<Rightarrow> exn + int option" where
  "num_to_int (PInt i) = Inr (Some i)"
| "num_to_int (PBool b) = Inr (Some (if b then 1 else 0))"
| "num_to_int (PFloat (Finite r)) = Inr (Some (if r < 0 then - \<lfloor>- r\<rfloor> else \<lfloor>r\<rfloor>))"
| "num_to_int (PFloat NaN) = Inl (ValueError ''cannot convert float NaN to integer'')"
| "num_to_int (PFloat _) = Inl OverflowError"
| "num_to_int _ = Inr None"

fun thumb_dims :: "pyval \<Rightarrow> int option \<times> int option" where
  "thumb_dims (PDict t) =
     (case num_to_int (dget t ''width'') of
        Inl e \<Rightarrow> (None, None)
      | Inr thumb_w \<Rightarrow>
          (case num_to_int (dget t ''height'') of
             Inl e \<Rightarrow> (None, None)
           | Inr thumb_h \<Rightarrow> (thumb_w, thumb_h)))"
| "thumb_dims _ = (None, None)"

section \<open>Title, artists and overrides\<close>

text \<open>The frozen dataclass \<open>DownloadOverrides\<close>: both fields default to \<open>None\<close>.\<close>

record DownloadOverrides =
  title :: "string option"
  artists :: "string list option"

text \<open>
  Line 85. \<open>Path(full_path).stem\<close> is the standard library's; the stem function is a
  parameter.
\<close>

definition derive_title :: "(string \<Rightarrow> string) \<Rightarrow> pydict \<Rightarrow> string \<Rightarrow> pyval" where
  "derive_title stem info full_path = py_or (dget info ''title'') (PStr (stem full_path))"

text \<open>Lines 87 to 100.\<close>

definition derive_artists :: "pydict \<Rightarrow> pyval list" where
  "derive_artists info =
     (if truthy (dget info ''artists'') \<and> is_list (dget info ''artists'')
        then [] @ items (dget info ''artists'')
      else if truthy (dget info ''artist'') then [] @ [dget info ''artist'']
      else if truthy (dget info ''uploader'') then [] @ [dget info ''uploader'']
      else if truthy (dget info ''channel'') then [] @ [dget info ''channel'']
      else [PStr ''Unknown Artist''])"

text \<open>
  The artist fallback in the spec's words: the sources in order are the \<open>artists\<close> list,
  the scalar \<open>artist\<close>, \<open>uploader\<close> and \<open>channel\<close>; the first non-empty one wins, and
  the sentinel stands in when all are empty.
\<close>

definition scalar_source :: "pyval \<Rightarrow> pyval list" where
  "scalar_source v = (if truthy v then [v] else [])"

definition artist_sources :: "pydict \<Rightarrow> pyval list list" where
  "artist_sources info =
     [if is_list (dget info ''artists'') then items (dget info ''artists'') else [],
      scalar_source (dget info ''artist''),
      scalar_source (dget info ''uploader''),
      scalar_source (dget info ''channel'')]"

definition first_non_empty_artists :: "pydict \<Rightarrow> pyval list" where
  "first_non_empty_artists info =
     (case filter (\<lambda>src. src \<noteq> []) (artist_sources info) of
        [] \<Rightarrow> [PStr ''Unknown Artist'']
      | src # rest \<Rightarrow> src)"

text \<open>
  \<open>PurePosixPath.stem\<close> as of CPython 3.12, for a normalized absolute path as
  \<open>os.path.abspath\<close> returns it: the last component, without its last suffix when the
  last dot is neither its first nor its last character.
\<close>

definition posix_stem :: "string \<Rightarrow> string" where
  "posix_stem p =
     (let name = rev (takeWhile (\<lambda>c. c \<noteq> CHR ''/'') (rev p));
          suffix = rev (takeWhile (\<lambda>c. c \<noteq> CHR ''.'') (rev name))
      in if CHR ''.'' \<in> set name \<and> suffix \<noteq> [] \<and> Suc (length suffix) < length name
         then take (length name - Suc (length suffix)) name
         else name)"

text \<open>Lines 102 to 113, on the pair (title, artists).\<close>

definition override_title :: "DownloadOverrides option \<Rightarrow> pyval \<Rightarrow> pyval" where
  "override_title overrides t =
     (case overrides of
        None \<Rightarrow> t
      | Some ov \<Rightarrow>
          (case title ov of
             None \<Rightarrow> t
           | Some s \<Rightarrow> if s \<noteq> [] \<and> strip s \<noteq> [] then PStr (strip s) else t))"

definition override_artists :: "DownloadOverrides option \<Rightarrow> pyval list \<Rightarrow> pyval list" where
  "override_artists overrides as =
     (case overrides of
        None \<Rightarrow> as
      | Some ov \<Rightarrow>
          (case artists ov of
             None \<Rightarrow> as
           | Some l \<Rightarrow>
               if l \<noteq> [] \<and> [strip a. a \<leftarrow> l, strip a \<noteq> []] \<noteq> []
                 then map PStr [strip a. a \<leftarrow> l, strip a \<noteq> []]
               else as))"

section \<open>The metadata record\<close>

fun opt_int :: "int option \<Rightarrow> pyval" where
  "opt_int None = PNone"
| "opt_int (Some i) = PInt i"

text \<open>
  Lines 85 to 175: the dictionary \<open>meta\<close> built from the extractor record \<open>info\<close>, the
  realized path and the trimmed URL. The source returns its JSON serialization.
\<close>

definition build_meta ::
  "(string \<Rightarrow> int option) \<Rightarrow> (string \<Rightarrow> string) \<Rightarrow> pydict \<Rightarrow> string \<Rightarrow> string \<Rightarrow>
   DownloadOverrides option \<Rightarrow> exn + pydict" where
  "build_meta ios stem info full_path trimmed_url overrides =
     (let title' = override_title overrides (derive_title stem info full_path);
          artists' = override_artists overrides (derive_artists info)
      in case choose_thumbnail ios info of
           Inl e \<Rightarrow> Inl e
         | Inr (thumbnail_info, thumbnail_url) \<Rightarrow>
             (case thumb_dims thumbnail_info of
                (thumb_w, thumb_h) \<Rightarrow>
                  Inr [(''path'', PStr full_path),
                       (''original_url'', PStr trimmed_url),
                       (''title'', title'),
                       (''artists'', PList artists'),
                       (''thumbnail_url'', thumbnail_url),
                       (''thumbnail_width'', opt_int thumb_w),
                       (''thumbnail_height'', opt_int thumb_h),
                       (''thumbnail_is_square'',
                          PBool (thumb_w \<noteq> None \<and> thumb_h \<noteq> None \<and> thumb_w = thumb_h))]))"

section \<open>The identifier resolver\<close>

text \<open>The three attributes of \<open>urlparse\<close>'s result that the resolver reads.\<close>

record ParseResult =
  scheme :: string
  hostname :: "string option"
  path :: string

text \<open>
  \<open>_spotify_track_id\<close>. The URL parser is the standard library's and a parameter here; it
  may raise, and nothing around the call catches that.
\<close>

definition spotify_track_id :: "(string \<Rightarrow> exn + ParseResult) \<Rightarrow> string \<Rightarrow> exn + string option" where
  "spotify_track_id urlparse url =
     (case urlparse (strip url) of
        Inl e \<Rightarrow> Inl e
      | Inr parsed \<Rightarrow>
          (let host = lower (case hostname parsed of None \<Rightarrow> [] | Some hn \<Rightarrow> hn)
           in if scheme parsed \<notin> set [''http'', ''https''] \<or> host \<noteq> ''open.spotify.com''
              then Inr None
              else
                (let path_parts = filter (\<lambda>part. part \<noteq> []) (split_on CHR ''/'' (path parsed))
                 in if length path_parts \<noteq> 2 \<or> path_parts ! 0 \<noteq> ''track'' then Inr None
                    else
                      (let track_id = strip (path_parts ! 1)
                       in if track_id = [] \<or> \<not> isalnum track_id then Inr None
                          else Inr (Some track_id)))))"

subsection \<open>The standard library's parser\<close>

text \<open>
  \<open>urllib.parse.urlparse\<close> as of CPython 3.11.4 to 3.12, restricted to the attributes
  above: \<open>urlsplit\<close> strips leading control characters and spaces, removes tab, carriage
  return and line feed, splits off a scheme, then an authority after \<open>//\<close>, raises on an
  unmatched square bracket in the authority, drops fragment and query, and \<open>urlparse\<close>
  drops the parameters of the last path segment. The validation of a bracketed host and of
  a non-ASCII authority (by NFKC normalization) are the two parameters \<open>bracketed_ok\<close>
  and \<open>nfkc_ok\<close>.
\<close>

definition ascii_alpha :: "char \<Rightarrow> bool" where
  "ascii_alpha c = (let n = (of_char c :: nat) in (65 \<le> n \<and> n \<le> 90) \<or> (97 \<le> n \<and> n \<le> 122))"

definition scheme_char :: "char \<Rightarrow> bool" where
  "scheme_char c =
     (let n = (of_char c :: nat)
      in (65 \<le> n \<and> n \<le> 90) \<or> (97 \<le> n \<and> n \<le> 122) \<or> (48 \<le> n \<and> n \<le> 57) \<or>
         c \<in> set ''+-.'')"

definition split_scheme :: "string \<Rightarrow> string \<times> string" where
  "split_scheme url =
     (let pre = takeWhile (\<lambda>c. c \<noteq> CHR '':'') url
      in if length pre < length url \<and> pre \<noteq> [] \<and> ascii_alpha (hd pre) \<and> list_all scheme_char pre
         then (lower pre, drop (Suc (length pre)) url)
         else ([], url))"

definition split_netloc :: "string \<Rightarrow> string \<times> string" where
  "split_netloc url =
     (if take 2 url = ''//''
      then (takeWhile (\<lambda>c. c \<notin> set ''/?#'') (drop 2 url),
            dropWhile (\<lambda>c. c \<notin> set ''/?#'') (drop 2 url))
      else ([], url))"

definition uses_params :: "string list" where
  "uses_params = [[], ''ftp'', ''hdl'', ''prospero'', ''http'', ''imap'', ''https'', ''shttp'',
                  ''rtsp'', ''rtsps'', ''rtspu'', ''sip'', ''sips'', ''mms'', ''sftp'', ''tel'']"

definition split_params :: "string \<Rightarrow> string" where
  "split_params url =
     rev (dropWhile (\<lambda>c. c \<noteq> CHR ''/'') (rev url)) @
     takeWhile (\<lambda>c. c \<noteq> CHR '';'') (rev (takeWhile (\<lambda>c. c \<noteq> CHR ''/'') (rev url)))"

definition bracketed_host :: "string \<Rightarrow> string" where
  "bracketed_host netloc =
     takeWhile (\<lambda>c. c \<noteq> CHR '']'') (drop 1 (dropWhile (\<lambda>c. c \<noteq> CHR ''['') netloc))"

definition hostname_of :: "string \<Rightarrow> string option" where
  "hostname_of netloc =
     (let hostinfo = rev (takeWhile (\<lambda>c. c \<noteq> CHR ''@'') (rev netloc));
          hn = (if CHR ''['' \<in> set hostinfo then bracketed_host hostinfo
                else takeWhile (\<lambda>c. c \<noteq> CHR '':'') hostinfo)
      in if hn = [] then None
         else Some (lower (takeWhile (\<lambda>c. c \<noteq> CHR ''%'') hn) @
                    dropWhile (\<lambda>c. c \<noteq> CHR ''%'') hn))"

definition py_urlparse :: "(string \<Rightarrow> bool) \<Rightarrow> (string \<Rightarrow> bool) \<Rightarrow> string \<Rightarrow> exn + ParseResult" where
  "py_urlparse bracketed_ok nfkc_ok url =
     (let url1 = filter (\<lambda>c. c \<notin> set [CHR 0x09, CHR 0x0D, CHR 0x0A])
                   (dropWhile (\<lambda>c. (of_char c :: nat) \<le> 32) url);
          sch = fst (split_scheme url1);
          netloc = fst (split_netloc (snd (split_scheme url1)));
          url2 = snd (split_netloc (snd (split_scheme url1)));
          url3 = takeWhile (\<lambda>c. c \<noteq> CHR ''?'') (takeWhile (\<lambda>c. c \<noteq> CHR ''#'') url2)
      in if (CHR ''['' \<in> set netloc) \<noteq> (CHR '']'' \<in> set netloc)
           then Inl (ValueError ''Invalid IPv6 URL'')
         else if CHR ''['' \<in> set netloc \<and> \<not> bracketed_ok (bracketed_host netloc)
           then Inl (ValueError ''invalid bracketed host'')
         else if \<not> list_all (\<lambda>c. (of_char c :: nat) < 128) netloc \<and> \<not> nfkc_ok netloc
           then Inl (ValueError ''netloc contains invalid characters under NFKC normalization'')
         else Inr \<lparr>scheme = sch, hostname = hostname_of netloc,
                   path = (if sch \<in> set uses_params then split_params url3 else url3)\<rparr>)"

text \<open>
  \<open>_check_bracketed_host\<close>: a bracketed host is an IPvFuture literal (\<open>v\<close>, hex digits,
  a dot, at least one more character) or what \<open>ipaddress.ip_address\<close> accepts as an IPv6
  address, with an optional scope id after \<open>%\<close>. An IPv4 address in brackets is refused,
  and it is no IPv6 address either.
\<close>

definition hex_digit :: "char \<Rightarrow> bool" where
  "hex_digit c = (c \<in> set ''0123456789abcdefABCDEF'')"

definition valid_hextet :: "string \<Rightarrow> bool" where
  "valid_hextet part = (part \<noteq> [] \<and> list_all hex_digit part \<and> length part \<le> 4)"

definition valid_octet :: "string \<Rightarrow> bool" where
  "valid_octet part =
     (part \<noteq> [] \<and> list_all (\<lambda>c. c \<in> set ''0123456789'') part \<and> length part \<le> 3 \<and>
      (part = ''0'' \<or> hd part \<noteq> CHR ''0'') \<and>
      foldl (\<lambda>n c. 10 * n + ((of_char c :: nat) - 48)) 0 part \<le> 255)"

definition valid_ipv4 :: "string \<Rightarrow> bool" where
  "valid_ipv4 s = (length (split_on CHR ''.'' s) = 4 \<and> list_all valid_octet (split_on CHR ''.'' s))"

definition valid_ipv6_parts :: "string list \<Rightarrow> bool" where
  "valid_ipv6_parts parts =
     (let n = length parts
      in n \<le> 9 \<and>
         (case filter (\<lambda>i. parts ! i = []) [1..<n - 1] of
            [] \<Rightarrow> n = 8 \<and> list_all valid_hextet parts
          | [skip_index] \<Rightarrow>
              (let parts_hi = (if hd parts = [] then skip_index - 1 else skip_index);
                   parts_lo = (if last parts = [] then n - skip_index - 2 else n - skip_index - 1)
               in (if hd parts = [] then parts_hi = 0 else True) \<and>
                  (if last parts = [] then parts_lo = 0 else True) \<and>
                  parts_hi + parts_lo < 8 \<and>
                  list_all valid_hextet (take parts_hi parts) \<and>
                  list_all valid_hextet (drop (n - parts_lo) parts))
          | _ \<Rightarrow> False))"

definition valid_ipv6 :: "string \<Rightarrow> bool" where
  "valid_ipv6 s =
     (let addr = takeWhile (\<lambda>c. c \<noteq> CHR ''%'') s;
          scope = drop 1 (dropWhile (\<lambda>c. c \<noteq> CHR ''%'') s);
          parts = split_on CHR '':'' addr
      in CHR ''/'' \<notin> set s \<and>
         (if CHR ''%'' \<in> set s then scope \<noteq> [] \<and> CHR ''%'' \<notin> set scope else True) \<and>
         addr \<noteq> [] \<and> 3 \<le> length parts \<and>
         (if CHR ''.'' \<in> set (last parts)
          then valid_ipv4 (last parts) \<and> valid_ipv6_parts (butlast parts @ [''0'', ''0''])
          else valid_ipv6_parts parts))"

definition valid_bracketed_host :: "string \<Rightarrow> bool" where
  "valid_bracketed_host host =
     (if take 1 host = ''v'' then
        (let after = dropWhile hex_digit (drop 1 host)
         in takeWhile hex_digit (drop 1 host) \<noteq> [] \<and> take 1 after = ''.'' \<and>
            drop 1 after \<noteq> [] \<and> CHR 0x0A \<notin> set (drop 1 after))
      else valid_ipv6 host)"

section \<open>The Spotify embed payload\<close>

text \<open>\<open>x.get(k, default)\<close>: the default replaces a missing key only.\<close>

fun py_get_default :: "pyval \<Rightarrow> string \<Rightarrow> pyval \<Rightarrow> exn + pyval" where
  "py_get_default (PDict d) k dflt = Inr (case map_of d k of None \<Rightarrow> dflt | Some v \<Rightarrow> v)"
| "py_get_default _ k dflt = Inl AttributeError"

text \<open>Lines 213 to 217: the navigation to the track entity.\<close>

definition spotify_entity :: "pyval \<Rightarrow> exn + pyval" where
  "spotify_entity payload =
     (case py_get payload ''props'' of
        Inl e \<Rightarrow> Inl e
      | Inr props \<Rightarrow>
     (case py_get (py_or props (PDict [])) ''pageProps'' of
        Inl e \<Rightarrow> Inl e
      | Inr pageProps \<Rightarrow>
     (case py_get (py_or pageProps (PDict [])) ''state'' of
        Inl e \<Rightarrow> Inl e
      | Inr state \<Rightarrow>
     (case py_get_default (py_or state (PDict [])) ''data'' (PDict []) of
        Inl e \<Rightarrow> Inl e
      | Inr data \<Rightarrow>
     (case py_get data ''entity'' of
        Inl e \<Rightarrow> Inl e
      | Inr entity \<Rightarrow> Inr (py_or entity (PDict [])))))))"

text \<open>Line 219.\<close>

definition spotify_title :: "pyval \<Rightarrow> exn + string" where
  "spotify_title entity =
     (case py_get entity ''title'' of
        Inl e \<Rightarrow> Inl e
      | Inr t \<Rightarrow>
          if truthy t then py_strip t
          else (case py_get entity ''name'' of
                  Inl e \<Rightarrow> Inl e
                | Inr n \<Rightarrow> py_strip (py_or n (PStr []))))"

text \<open>
  \<open>for x in obj\<close>: a list gives its elements, a string its characters, a dictionary its
  keys; nothing else here is iterable.
\<close>

fun py_iter :: "pyval \<Rightarrow> exn + pyval list" where
  "py_iter (PList xs) = Inr xs"
| "py_iter (PStr s) = Inr (map (\<lambda>c. PStr [c]) s)"
| "py_iter (PDict d) = Inr (map (\<lambda>kv. PStr (fst kv)) d)"
| "py_iter _ = Inl TypeError"

text \<open>Lines 220 to 224: the body of the comprehension, element by element.\<close>

fun artist_names :: "pyval list \<Rightarrow> exn + string list" where
  "artist_names [] = Inr []"
| "artist_names (artist # rest) =
     (if is_dict artist then
        (case py_get artist ''name'' of
           Inl e \<Rightarrow> Inl e
         | Inr n \<Rightarrow>
             (case py_strip (py_or n (PStr [])) of
                Inl e \<Rightarrow> Inl e
              | Inr s \<Rightarrow>
                  if s \<noteq> [] then
                    (case artist_names rest of Inl e \<Rightarrow> Inl e | Inr names \<Rightarrow> Inr (s # names))
                  else artist_names rest))
      else artist_names rest)"

text \<open>Lines 213 to 227: title and artist names of a parsed payload.\<close>

definition spotify_metadata :: "pyval \<Rightarrow> exn + (string \<times> string list)" where
  "spotify_metadata payload =
     (case spotify_entity payload of
        Inl e \<Rightarrow> Inl e
      | Inr entity \<Rightarrow>
     (case spotify_title entity of
        Inl e \<Rightarrow> Inl e
      | Inr title' \<Rightarrow>
     (case py_get entity ''artists'' of
        Inl e \<Rightarrow> Inl e
      | Inr a \<Rightarrow>
     (case py_iter (py_or a (PList [])) of
        Inl e \<Rightarrow> Inl e
      | Inr l \<Rightarrow>
     (case artist_names l of
        Inl e \<Rightarrow> Inl e
      | Inr artists' \<Rightarrow>
          if title' = [] \<or> artists' = []
          then Inl (ValueError ''Spotify track metadata is missing title or artists'')
          else Inr (title', artists'))))))"

text \<open>Lines 239 to 243: the URL of the first search result.\<close>

definition top_result_url :: "pyval \<Rightarrow> exn + string" where
  "top_result_url results =
     (case (case results of
              PList (r # rs) \<Rightarrow> py_get (py_or r (PDict [])) ''url''
            | _ \<Rightarrow> Inr PNone) of
        Inl e \<Rightarrow> Inl e
      | Inr youtube_url \<Rightarrow>
          (case youtube_url of
             PStr u \<Rightarrow>
               if strip u = [] then Inl (ValueError ''No YouTube results found for Spotify track'')
               else Inr u
           | _ \<Rightarrow> Inl (ValueError ''No YouTube results found for Spotify track'')))"

text \<open>Lines 245 to 257.\<close>

definition merge_overrides :: "DownloadOverrides option \<Rightarrow> string \<Rightarrow> string list \<Rightarrow> DownloadOverrides" where
  "merge_overrides overrides title' artists' =
     (let spotify_overrides = \<lparr>title = Some title', artists = Some artists'\<rparr>
      in \<lparr>title = (case overrides of
                    None \<Rightarrow> title spotify_overrides
                  | Some ov \<Rightarrow> (case title ov of None \<Rightarrow> title spotify_overrides | Some t \<Rightarrow> Some t)),
          artists = (case overrides of
                    None \<Rightarrow> artists spotify_overrides
                  | Some ov \<Rightarrow> (case artists ov of None \<Rightarrow> artists spotify_overrides | Some l \<Rightarrow> Some l))\<rparr>)"

section \<open>The external collaborators\<close>

text \<open>
  Everything \<open>download\<close> does outside the interpreter is an event, appended to the history
  in program order. The answer of a collaborator may depend on the history so far.
\<close>

datatype event =
    Print string
  | Mkdir string
  | ExtractInfo string
  | HttpGet string
  | SearchYoutube string

type_synonym history = "event list"

text \<open>
  \<open>output_dir\<close> and \<open>yt_cache_dir\<close> are the two paths of lines 52 to 56.
  \<open>extract_info\<close> is \<open>ydl.extract_info(url, download=True)\<close>, \<open>realized_path\<close> is
  \<open>os.path.abspath(ydl.prepare_filename(info))\<close>, \<open>http_get\<close> gives status code and body,
  \<open>find_script\<close> gives \<open>script.string\<close> and \<open>script.get_text(strip=True)\<close> of the tag with
  id \<open>__NEXT_DATA__\<close> if the page has one, \<open>json_loads\<close> gives \<open>None\<close> for a
  \<open>JSONDecodeError\<close>, and \<open>search_youtube\<close> is the function of that name in the module
  \<open>search\<close>.
\<close>

record world =
  urlparse :: "string \<Rightarrow> exn + ParseResult"
  int_of_str :: "string \<Rightarrow> int option"
  path_stem :: "string \<Rightarrow> string"
  output_dir :: string
  yt_cache_dir :: string
  mkdir :: "history \<Rightarrow> string \<Rightarrow> exn option"
  extract_info :: "history \<Rightarrow> string \<Rightarrow> exn + pydict option"
  realized_path :: "history \<Rightarrow> pydict \<Rightarrow> exn + string"
  http_get :: "history \<Rightarrow> string \<Rightarrow> exn + nat \<times> string"
  find_script :: "string \<Rightarrow> (string option \<times> string) option"
  json_loads :: "string \<Rightarrow> pyval option"
  search_youtube :: "history \<Rightarrow> string \<Rightarrow> exn + string"

section \<open>The direct path of \<open>download\<close>\<close>

text \<open>Lines 31 to 177, for a trimmed URL that is not a Spotify track.\<close>

definition download_direct ::
  "world \<Rightarrow> string \<Rightarrow> DownloadOverrides option \<Rightarrow> history \<Rightarrow> (exn + pydict) \<times> history" where
  "download_direct w trimmed_url overrides h =
     (case mkdir w h (output_dir w) of
        Some e \<Rightarrow> (Inl e, h @ [Mkdir (output_dir w)])
      | None \<Rightarrow>
     (let h1 = h @ [Mkdir (output_dir w)]
      in case mkdir w h1 (yt_cache_dir w) of
        Some e \<Rightarrow> (Inl e, h1 @ [Mkdir (yt_cache_dir w)])
      | None \<Rightarrow>
     (let h2 = h1 @ [Mkdir (yt_cache_dir w),
                     Print (''Downloading video from: '' @ trimmed_url),
                     Print (''Downloading video to: '' @ output_dir w),
                     Print (''Using cache dir: '' @ yt_cache_dir w)];
          h3 = h2 @ [ExtractInfo trimmed_url]
      in case extract_info w h2 trimmed_url of
        Inl e \<Rightarrow> (Inl e, h3)
      | Inr None \<Rightarrow>
          (Inl (PlainException ''Failed to retrieve video information (manually thrown)''), h3)
      | Inr (Some info) \<Rightarrow>
     (case realized_path w h3 info of
        Inl e \<Rightarrow> (Inl e, h3)
      | Inr full_path \<Rightarrow>
          (build_meta (int_of_str w) (path_stem w) info full_path trimmed_url overrides,
           h3 @ [Print (''Downloaded file: '' @ full_path)])))))"

section \<open>The Spotify path\<close>

text \<open>Lines 202 to 204.\<close>

definition script_text_of :: "(string option \<times> string) option \<Rightarrow> string" where
  "script_text_of script =
     (case script of
        None \<Rightarrow> []
      | Some (str, text) \<Rightarrow>
          (case str of None \<Rightarrow> text | Some s \<Rightarrow> if s \<noteq> [] then s else text))"

text \<open>
  Lines 187 to 243 of \<open>_download_spotify\<close>, everything before the final call of
  \<open>download\<close>: title, artist names and the URL of the first search result.
\<close>

definition spotify_lookup ::
  "world \<Rightarrow> string \<Rightarrow> history \<Rightarrow> (exn + (string \<times> string list \<times> string)) \<times> history" where
  "spotify_lookup w track_id h =
     (if track_id = [] then
        (Inl (ValueError
           ''Invalid Spotify track id. Expected format: https://open.spotify.com/track/{id}''), h)
      else
     (let embed_url = ''https://open.spotify.com/embed/track/'' @ track_id @ ''?utm_source=oembed'';
          h1 = h @ [HttpGet embed_url]
      in case http_get w h embed_url of
        Inl e \<Rightarrow> (Inl e, h1)
      | Inr (status_code, text) \<Rightarrow>
          if status_code \<noteq> 200 then
            (Inl (ValueError (''Failed to fetch Spotify embed page (status='' @
                              str_nat status_code @ '')'')), h1)
          else
     (let script_text = script_text_of (find_script w text)
      in if script_text = [] then
           (Inl (ValueError ''Spotify embed page is missing __NEXT_DATA__ JSON''), h1)
         else
     (case json_loads w script_text of
        None \<Rightarrow> (Inl (ValueError ''Failed to parse Spotify __NEXT_DATA__ JSON''), h1)
      | Some payload \<Rightarrow>
     (case spotify_metadata payload of
        Inl e \<Rightarrow> (Inl e, h1)
      | Inr (title', artists') \<Rightarrow>
     (let search_query = strip (join_space (title' # artists'));
          h2 = h1 @ [SearchYoutube search_query]
      in case search_youtube w h1 search_query of
        Inl e \<Rightarrow> (Inl e, h2)
      | Inr raw_results \<Rightarrow>
     (let h3 = h2 @ [Print (''Searching YouTube for Spotify track using search query: '' @
                            search_query)]
      in case json_loads w raw_results of
        None \<Rightarrow> (Inl (ValueError ''Invalid JSON returned from YouTube search''), h3)
      | Some results \<Rightarrow>
     (case top_result_url results of
        Inl e \<Rightarrow> (Inl e, h3)
      | Inr youtube_url \<Rightarrow> (Inr (title', artists', youtube_url), h3)))))))))"

section \<open>\<open>download\<close> and \<open>_download_spotify\<close>\<close>

text \<open>
  The two functions call each other, and nothing in them bounds the depth. The first
  argument counts the frames of \<open>download\<close> that may still be entered; \<open>None\<close> is a call
  that needs more.
\<close>

function download ::
    "nat \<Rightarrow> world \<Rightarrow> string \<Rightarrow> DownloadOverrides option \<Rightarrow> history \<Rightarrow>
     ((exn + pydict) \<times> history) option"
  and download_spotify ::
    "nat \<Rightarrow> world \<Rightarrow> string \<Rightarrow> DownloadOverrides option \<Rightarrow> history \<Rightarrow>
     ((exn + pydict) \<times> history) option"
where
  "download 0 w url overrides h = None"
| "download (Suc n) w url overrides h =
     (let trimmed_url = strip url
      in if trimmed_url = [] then Some (Inl (ValueError ''URL cannot be empty''), h)
         else
           (case spotify_track_id (urlparse w) trimmed_url of
              Inl e \<Rightarrow> Some (Inl e, h)
            | Inr None \<Rightarrow> Some (download_direct w trimmed_url overrides h)
            | Inr (Some track_id) \<Rightarrow>
                if track_id \<noteq> [] then download_spotify n w track_id overrides h
                else Some (download_direct w trimmed_url overrides h)))"
| "download_spotify n w track_id overrides h =
     (case spotify_lookup w track_id h of
        (Inl e, h') \<Rightarrow> Some (Inl e, h')
      | (Inr (title', artists', youtube_url), h') \<Rightarrow>
          download n w (strip youtube_url)
            (Some (merge_overrides overrides title' artists')) h')"
  by pat_completeness auto
termination
  by (relation "measure (\<lambda>x. case x of Inl (n, _) \<Rightarrow> 2 * n | Inr (n, _) \<Rightarrow> 2 * n + 1)") auto

section \<open>The log-capturing invoker\<close>

text \<open>
  The interpreter's two output variables \<open>sys.stdout\<close> and \<open>sys.stderr\<close> each refer to a
  stream object; the stream objects are the entries of \<open>files\<close>, each with the text that
  has reached it so far. A reference to no entry is a stream object of the operation's own.

  An operation is the sequence of what it does to the streams, and how it ends: with a
  value or with a raised exception. It may write through one of the two variables as
  bound at that moment (\<open>print\<close>, \<open>sys.stderr.write\<close>), write to a stream object
  itself (a reference saved earlier, \<open>sys.__stdout__\<close>, a logging handler created
  before the call, the file descriptor behind the object), or bind a variable to another
  stream object.
\<close>

datatype stream = Stdout | Stderr

datatype action =
    Via stream string
  | Direct nat string
  | Rebind stream nat

record interp =
  sys_stdout :: nat
  sys_stderr :: nat
  files :: "string list"


definition append_to :: "nat \<Rightarrow> string \<Rightarrow> interp \<Rightarrow> interp" where
  "append_to i text st =
     (if i < length (files st) then st\<lparr>files := (files st)[i := files st ! i @ text]\<rparr>
      else st)"

fun perform :: "interp \<Rightarrow> action \<Rightarrow> interp" where
  "perform st (Via Stdout text) = append_to (sys_stdout st) text st"
| "perform st (Via Stderr text) = append_to (sys_stderr st) text st"
| "perform st (Direct i text) = append_to i text st"
| "perform st (Rebind Stdout i) = st\<lparr>sys_stdout := i\<rparr>"
| "perform st (Rebind Stderr i) = st\<lparr>sys_stderr := i\<rparr>"





section \<open>An example world\<close>

text \<open>
  A world for running the functions on concrete inputs. Two media URLs resolve to extractor
  records with thumbnails, one Spotify track has an embed page, and the search finds the
  first media URL. The URL parser is the standard library's; on code points below 256 its
  NFKC check never fails. No dimension of the examples is a string, so the string parser
  of \<open>int\<close> is never consulted.
\<close>

definition example_info1 :: pydict where
  "example_info1 =
     [(''title'', PStr ''Video''),
      (''uploader'', PStr ''Chan''),
      (''thumbnails'', PList
         [PDict [(''url'', PStr ''a''), (''width'', PInt 100), (''height'', PInt 100)],
          PDict [(''url'', PStr ''b''), (''width'', PInt 300), (''height'', PInt 100)],
          PDict [(''url'', PStr ''c''), (''width'', PInt 200), (''height'', PInt 202)]])]"

definition example_info2 :: pydict where
  "example_info2 =
     [(''title'', PStr ''Clip''),
      (''thumbnails'', PList
         [PDict [(''url'', PStr ''z''), (''width'', PInt 0), (''height'', PInt 0)]])]"

definition example_payload :: pyval where
  "example_payload =
     PDict [(''props'', PDict [(''pageProps'', PDict [(''state'', PDict [(''data'',
       PDict [(''entity'', PDict [(''title'', PStr ''T''),
                                  (''artists'', PList [PDict [(''name'', PStr ''X'')]])])])])])])]"

definition example_world :: world where
  "example_world =
     \<lparr>urlparse = py_urlparse valid_bracketed_host (\<lambda>netloc. True),
      int_of_str = (\<lambda>s. None),
      path_stem = posix_stem,
      output_dir = ''/tmp'',
      yt_cache_dir = ''/home/u/Library/Caches/yt-dlp'',
      mkdir = (\<lambda>h p. None),
      extract_info = (\<lambda>h url.
         if url = ''https://example.com/v1'' then Inr (Some example_info1)
         else if url = ''https://example.com/v2'' then Inr (Some example_info2)
         else Inr None),
      realized_path = (\<lambda>h info. Inr ''/tmp/up-id.m4a''),
      http_get = (\<lambda>h url.
         if url = ''https://open.spotify.com/embed/track/ABC123?utm_source=oembed''
         then Inr (200, ''page'') else Inr (404, [])),
      find_script = (\<lambda>text. if text = ''page'' then Some (Some ''payload'', ''payload'') else None),
      json_loads = (\<lambda>s.
         if s = ''payload'' then Some example_payload
         else if s = ''results'' then Some (PList [PDict [(''url'', PStr ''https://example.com/v1'')]])
         else if s = ''loop'' then
           Some (PList [PDict [(''url'', PStr ''https://open.spotify.com/track/ABC123'')]])
         else None),
      search_youtube = (\<lambda>h query. Inr ''results'')\<rparr>"

text \<open>The same world with a search that finds the Spotify track itself.\<close>

definition looping_world :: world where
  "looping_world = example_world\<lparr>search_youtube := (\<lambda>h query. Inr ''loop'')\<rparr>"

section \<open>Thumbnail selection: proofs\<close>













section \<open>Title and artists: proofs\<close>

lemma derive_artists_refines: "derive_artists info = first_non_empty_artists info"
proof (cases "dget info ''artists''")
  case (PList xs)
  then show ?thesis
    by (cases xs) (simp_all add: derive_artists_def first_non_empty_artists_def
        artist_sources_def scalar_source_def)
qed (simp_all add: derive_artists_def first_non_empty_artists_def
        artist_sources_def scalar_source_def)

lemma strip_Nil: "strip [] = []"
  by (simp add: strip_def)

lemma build_meta_title_artists:
  assumes "build_meta ios stem info full_path url ov = Inr meta"
  shows "dget meta ''title'' = override_title ov (derive_title stem info full_path)"
    and "dget meta ''artists'' = PList (override_artists ov (derive_artists info))"
  using assms
  by (auto simp: build_meta_def dget_def Let_def split: sum.splits prod.splits)


text \<open>
  Claim C2, as amended. The title before overrides is the extractor-provided \<open>title\<close>
  when that value is true in Python's sense (present, not \<open>None\<close>, not empty), and the
  stem of the realized path otherwise. The artists before overrides are the first
  non-empty source among the \<open>artists\<close> list, \<open>artist\<close>, \<open>uploader\<close> and \<open>channel\<close>,
  and the one-element list \<open>["Unknown Artist"]\<close> when all four are empty. Without
  overrides, a returned metadata record carries exactly these two values.
\<close>

theorem title_artist_fallback:
  "derive_title stem info full_path =
     (if truthy (dget info ''title'') then dget info ''title'' else PStr (stem full_path)) \<and>
   derive_artists info = first_non_empty_artists info \<and>
   (build_meta ios stem info full_path url None = Inr meta \<longrightarrow>
      dget meta ''title'' = derive_title stem info full_path \<and>
      dget meta ''artists'' = PList (derive_artists info))"
proof (intro conjI impI)
  show "derive_title stem info full_path =
     (if truthy (dget info ''title'') then dget info ''title'' else PStr (stem full_path))"
    by (simp add: derive_title_def py_or_def)
  show "derive_artists info = first_non_empty_artists info"
    by (rule derive_artists_refines)
next
  assume b: "build_meta ios stem info full_path url None = Inr meta"
  from build_meta_title_artists(1) [OF b]
  show "dget meta ''title'' = derive_title stem info full_path"
    by (simp add: override_title_def)
  from build_meta_title_artists(2) [OF b]
  show "dget meta ''artists'' = PList (derive_artists info)"
    by (simp add: override_artists_def)
qed

theorem title_artist_fallback_witness:
  "build_meta (\<lambda>s. None) posix_stem [(''artist'', PStr ''Solo Artist'')] ''/tmp/up-id.m4a''
       ''https://example.com/x'' None =
     Inr [(''path'', PStr ''/tmp/up-id.m4a''), (''original_url'', PStr ''https://example.com/x''),
          (''title'', PStr ''up-id''), (''artists'', PList [PStr ''Solo Artist'']),
          (''thumbnail_url'', PNone), (''thumbnail_width'', PNone),
          (''thumbnail_height'', PNone), (''thumbnail_is_square'', PBool False)] \<and>
   derive_title posix_stem [(''artist'', PStr ''Solo Artist'')] ''/tmp/up-id.m4a'' = PStr ''up-id'' \<and>
   derive_artists [(''artist'', PStr ''Solo Artist'')] = [PStr ''Solo Artist''] \<and>
   first_non_empty_artists [(''artist'', PStr ''Solo Artist'')] = [PStr ''Solo Artist''] \<and>
   first_non_empty_artists [(''title'', PStr ''T'')] = [PStr ''Unknown Artist'']"
proof -
  let ?info = "[(''artist'', PStr ''Solo Artist'')]"
  let ?meta = "[(''path'', PStr ''/tmp/up-id.m4a''), (''original_url'', PStr ''https://example.com/x''),
          (''title'', PStr ''up-id''), (''artists'', PList [PStr ''Solo Artist'']),
          (''thumbnail_url'', PNone), (''thumbnail_width'', PNone),
          (''thumbnail_height'', PNone), (''thumbnail_is_square'', PBool False)]"
  have b: "build_meta (\<lambda>s. None) posix_stem ?info ''/tmp/up-id.m4a''
       ''https://example.com/x'' None = Inr ?meta"
    by (simp add: build_meta_def derive_title_def derive_artists_def override_title_def
      override_artists_def choose_thumbnail_def dget_def py_or_def posix_stem_def)
  have u: "first_non_empty_artists [(''title'', PStr ''T'')] = [PStr ''Unknown Artist'']"
    by (simp add: first_non_empty_artists_def artist_sources_def scalar_source_def dget_def)
  from title_artist_fallback [of posix_stem ?info "''/tmp/up-id.m4a''" "\<lambda>s. None"
      "''https://example.com/x''" ?meta] b u
  show ?thesis by (simp add: dget_def)
qed

text \<open>
  Claim C2 as stated fails for a title that is present and empty: the record
  \<open>{"title": ""}\<close> gets the stem of the path as its title.
\<close>

theorem title_present_but_empty_counterexample:
  "map_of [(''title'', PStr [])] ''title'' = Some (PStr []) \<and>
   build_meta (\<lambda>s. None) posix_stem [(''title'', PStr [])] ''/tmp/up-id.m4a''
       ''https://example.com/x'' None =
     Inr [(''path'', PStr ''/tmp/up-id.m4a''), (''original_url'', PStr ''https://example.com/x''),
          (''title'', PStr ''up-id''), (''artists'', PList [PStr ''Unknown Artist'']),
          (''thumbnail_url'', PNone), (''thumbnail_width'', PNone),
          (''thumbnail_height'', PNone), (''thumbnail_is_square'', PBool False)]"
  by (simp add: build_meta_def derive_title_def derive_artists_def override_title_def
      override_artists_def choose_thumbnail_def dget_def py_or_def posix_stem_def)

section \<open>Overrides: proofs\<close>

lemma comprehension_map_filter:
  "[strip a. a \<leftarrow> l, strip a \<noteq> []] = map strip (filter (\<lambda>a. strip a \<noteq> []) l)"
  by (induction l) simp_all

lemma override_title_Some:
  "override_title (Some ov) t =
     (case title ov of
        None \<Rightarrow> t
      | Some s \<Rightarrow> if strip s \<noteq> [] then PStr (strip s) else t)"
  by (auto simp: override_title_def strip_Nil split: option.splits)

lemma override_artists_Some:
  "override_artists (Some ov) as =
     (case artists ov of
        None \<Rightarrow> as
      | Some l \<Rightarrow>
          if \<exists>a\<in>set l. strip a \<noteq> []
          then map PStr (map strip (filter (\<lambda>a. strip a \<noteq> []) l))
          else as)"
  by (auto simp: override_artists_def comprehension_map_filter filter_empty_conv
      split: option.splits)

text \<open>
  Claim C3. With overrides, the title of a returned metadata record is the trimmed override
  title when that is non-blank after trimming, and the derived title otherwise (override
  title absent or blank). The artists are the override entries that are non-blank after
  trimming, each trimmed, in order, when there is at least one such entry, and the whole
  derived list otherwise: the two lists are never mixed.
\<close>

theorem overrides_replace_wholesale:
  "build_meta ios stem info full_path url (Some ov) = Inr meta \<longrightarrow>
     dget meta ''title'' =
       (case title ov of
          None \<Rightarrow> derive_title stem info full_path
        | Some s \<Rightarrow> if strip s \<noteq> [] then PStr (strip s)
                    else derive_title stem info full_path) \<and>
     dget meta ''artists'' =
       (case artists ov of
          None \<Rightarrow> PList (derive_artists info)
        | Some l \<Rightarrow>
            if \<exists>a\<in>set l. strip a \<noteq> []
            then PList (map PStr (map strip (filter (\<lambda>a. strip a \<noteq> []) l)))
            else PList (derive_artists info))"
proof
  assume b: "build_meta ios stem info full_path url (Some ov) = Inr meta"
  from build_meta_title_artists [OF b]
  show "dget meta ''title'' =
       (case title ov of
          None \<Rightarrow> derive_title stem info full_path
        | Some s \<Rightarrow> if strip s \<noteq> [] then PStr (strip s)
                    else derive_title stem info full_path) \<and>
     dget meta ''artists'' =
       (case artists ov of
          None \<Rightarrow> PList (derive_artists info)
        | Some l \<Rightarrow>
            if \<exists>a\<in>set l. strip a \<noteq> []
            then PList (map PStr (map strip (filter (\<lambda>a. strip a \<noteq> []) l)))
            else PList (derive_artists info))"
    by (simp add: override_title_Some override_artists_Some split: option.splits)
qed

theorem overrides_replace_wholesale_witness:
  "build_meta (\<lambda>s. None) posix_stem
       [(''title'', PStr ''Video''), (''uploader'', PStr ''Chan'')] ''/tmp/up-id.m4a''
       ''https://example.com/x'' (Some \<lparr>title = Some ''  '', artists = Some [''A'', []]\<rparr>) =
     Inr [(''path'', PStr ''/tmp/up-id.m4a''), (''original_url'', PStr ''https://example.com/x''),
          (''title'', PStr ''Video''), (''artists'', PList [PStr ''A'']),
          (''thumbnail_url'', PNone), (''thumbnail_width'', PNone),
          (''thumbnail_height'', PNone), (''thumbnail_is_square'', PBool False)] \<and>
   derive_title posix_stem [(''title'', PStr ''Video''), (''uploader'', PStr ''Chan'')]
       ''/tmp/up-id.m4a'' = PStr ''Video'' \<and>
   derive_artists [(''title'', PStr ''Video''), (''uploader'', PStr ''Chan'')] = [PStr ''Chan'']"
proof -
  let ?info = "[(''title'', PStr ''Video''), (''uploader'', PStr ''Chan'')]"
  let ?ov = "\<lparr>title = Some ''  '', artists = Some [''A'', []]\<rparr>"
  let ?meta = "[(''path'', PStr ''/tmp/up-id.m4a''), (''original_url'', PStr ''https://example.com/x''),
          (''title'', PStr ''Video''), (''artists'', PList [PStr ''A'']),
          (''thumbnail_url'', PNone), (''thumbnail_width'', PNone),
          (''thumbnail_height'', PNone), (''thumbnail_is_square'', PBool False)]"
  have b: "build_meta (\<lambda>s. None) posix_stem ?info ''/tmp/up-id.m4a''
       ''https://example.com/x'' (Some ?ov) = Inr ?meta"
    by (simp add: build_meta_def derive_title_def derive_artists_def override_title_def
      override_artists_def choose_thumbnail_def dget_def py_or_def strip_def is_space_def)
  have a: "derive_artists ?info = [PStr ''Chan'']"
    by (simp add: derive_artists_def dget_def)
  from overrides_replace_wholesale [of "\<lambda>s. None" posix_stem ?info "''/tmp/up-id.m4a''"
      "''https://example.com/x''" ?ov ?meta] b
  have "derive_title posix_stem ?info ''/tmp/up-id.m4a'' = PStr ''Video''"
    by (simp add: strip_def is_space_def dget_def)
  with a b show ?thesis by simp
qed

section \<open>The structure of \<open>download\<close>\<close>

lemma last_dropWhile_nonempty:
  "dropWhile P xs \<noteq> [] \<Longrightarrow> last (dropWhile P xs) = last xs"
  by (induction xs) (auto split: if_splits)

lemma strip_idem: "strip (strip s) = strip s"
proof -
  let ?d = "dropWhile is_space s"
  let ?r = "dropWhile is_space (rev ?d)"
  have s: "strip s = rev ?r" by (simp add: strip_def)
  have "dropWhile is_space (rev ?r) = rev ?r"
  proof (cases "?r = []")
    case True
    show ?thesis unfolding True by simp
  next
    case False
    then have "last ?r = last (rev ?d)" by (rule last_dropWhile_nonempty)
    then have l: "last ?r = hd ?d" by (simp add: last_rev)
    have "?d \<noteq> []"
    proof
      assume e: "?d = []"
      have "?r = []" unfolding e by simp
      with False show False ..
    qed
    then have "\<not> is_space (hd ?d)" by (rule hd_dropWhile)
    with l have "\<not> is_space (hd (rev ?r))" by (simp add: hd_rev)
    then show ?thesis by (simp add: dropWhile_eq_self_iff)
  qed
  then have "strip (rev ?r) = rev ?r" by (simp add: strip_def)
  with s show ?thesis by simp
qed

lemma spotify_track_id_strip:
  "spotify_track_id up (strip url) = spotify_track_id up url"
  by (simp add: spotify_track_id_def strip_idem)

lemma download_Suc:
  "download (Suc n) w url ov h =
     (if strip url = [] then Some (Inl (ValueError ''URL cannot be empty''), h)
      else
        (case spotify_track_id (urlparse w) url of
           Inl e \<Rightarrow> Some (Inl e, h)
         | Inr None \<Rightarrow> Some (download_direct w (strip url) ov h)
         | Inr (Some tid) \<Rightarrow>
             if tid = [] then Some (download_direct w (strip url) ov h)
             else
               (case spotify_lookup w tid h of
                  (Inl e, h') \<Rightarrow> Some (Inl e, h')
                | (Inr (t, a, u), h') \<Rightarrow>
                    download n w (strip u) (Some (merge_overrides ov t a)) h')))"
  by (simp add: Let_def spotify_track_id_strip split: sum.splits option.splits)

declare download.simps(2) [simp del]

lemma spotify_track_id_Some:
  assumes "spotify_track_id up url = Inr (Some tid)"
  shows "tid \<noteq> []"
  using assms
  by (auto simp: spotify_track_id_def Let_def split: sum.splits if_splits)

lemma top_result_url_nonblank:
  assumes "top_result_url results = Inr u"
  shows "strip u \<noteq> []"
  using assms
  by (auto simp: top_result_url_def split: sum.splits pyval.splits list.splits if_splits)

lemma spotify_lookup_nonblank:
  assumes "spotify_lookup w tid h = (Inr (t, a, u), h1)"
  shows "strip u \<noteq> []"
  using assms
  by (auto simp: spotify_lookup_def Let_def
      split: if_splits sum.splits option.splits prod.splits
      dest: top_result_url_nonblank)

lemma download_Suc_spotify:
  assumes "strip url \<noteq> []" "spotify_track_id (urlparse w) url = Inr (Some tid)"
  shows "download (Suc n) w url ov h =
     (case spotify_lookup w tid h of
        (Inl e, h') \<Rightarrow> Some (Inl e, h')
      | (Inr (t, a, u), h') \<Rightarrow> download n w (strip u) (Some (merge_overrides ov t a)) h')"
  using assms spotify_track_id_Some [OF assms(2)]
  by (simp add: download_Suc)

lemma download_Suc_not_spotify:
  assumes "strip url \<noteq> []" "\<forall>x. spotify_track_id (urlparse w) url \<noteq> Inr (Some x)"
  shows "download (Suc n) w url ov h =
     (case spotify_track_id (urlparse w) url of
        Inl e \<Rightarrow> Some (Inl e, h)
      | Inr r \<Rightarrow> Some (download_direct w (strip url) ov h))"
  using assms
  by (auto simp: download_Suc split: sum.splits option.splits)



lemma download_direct_meta:
  assumes "download_direct w turl ov h = (Inr meta, h')"
  shows "\<exists>info fp. build_meta (int_of_str w) (path_stem w) info fp turl ov = Inr meta"
  using assms
  by (auto simp: download_direct_def Let_def split: option.splits sum.splits)

lemma download_result_meta:
  "download n w url ov h = Some (Inr meta, h') \<Longrightarrow>
   \<exists>info fp turl ov'. build_meta (int_of_str w) (path_stem w) info fp turl ov' = Inr meta"
proof (induction n arbitrary: url ov h)
  case 0
  then show ?case by simp
next
  case (Suc n)
  from Suc.prems have
    "(\<exists>turl. download_direct w turl ov h = (Inr meta, h')) \<or>
     (\<exists>u ov' h1. download n w u ov' h1 = Some (Inr meta, h'))"
    unfolding download_Suc
    by (auto split: if_splits sum.splits option.splits prod.splits)
  then show ?case
  proof
    assume "\<exists>turl. download_direct w turl ov h = (Inr meta, h')"
    then obtain turl where "download_direct w turl ov h = (Inr meta, h')" by blast
    from download_direct_meta [OF this] show ?thesis by blast
  next
    assume "\<exists>u ov' h1. download n w u ov' h1 = Some (Inr meta, h')"
    then obtain u ov' h1 where "download n w u ov' h1 = Some (Inr meta, h')" by blast
    from Suc.IH [OF this] show ?thesis .
  qed
qed

lemma build_meta_square_flag:
  assumes "build_meta ios stem info fp turl ov = Inr meta"
  shows "dget meta ''thumbnail_is_square'' =
      PBool (\<exists>k. dget meta ''thumbnail_width'' = PInt k \<and> dget meta ''thumbnail_height'' = PInt k)"
    and "dget meta ''thumbnail_width'' = PNone \<or> (\<exists>k. dget meta ''thumbnail_width'' = PInt k)"
    and "dget meta ''thumbnail_height'' = PNone \<or> (\<exists>k. dget meta ''thumbnail_height'' = PInt k)"
proof -
  from assms obtain ti tu tw th where
    m: "meta = [(''path'', PStr fp), (''original_url'', PStr turl),
                (''title'', override_title ov (derive_title stem info fp)),
                (''artists'', PList (override_artists ov (derive_artists info))),
                (''thumbnail_url'', tu),
                (''thumbnail_width'', opt_int tw),
                (''thumbnail_height'', opt_int th),
                (''thumbnail_is_square'', PBool (tw \<noteq> None \<and> th \<noteq> None \<and> tw = th))]"
    by (auto simp: build_meta_def Let_def split: sum.splits prod.splits)
  show "dget meta ''thumbnail_is_square'' =
      PBool (\<exists>k. dget meta ''thumbnail_width'' = PInt k \<and> dget meta ''thumbnail_height'' = PInt k)"
    unfolding m by (cases tw; cases th) (auto simp: dget_def)
  show "dget meta ''thumbnail_width'' = PNone \<or> (\<exists>k. dget meta ''thumbnail_width'' = PInt k)"
    unfolding m by (cases tw) (auto simp: dget_def)
  show "dget meta ''thumbnail_height'' = PNone \<or> (\<exists>k. dget meta ''thumbnail_height'' = PInt k)"
    unfolding m by (cases th) (auto simp: dget_def)
qed

section \<open>The square flag\<close>

text \<open>
  Claim C7. In every metadata record that \<open>download\<close> returns, on either path,
  \<open>thumbnail_width\<close> and \<open>thumbnail_height\<close> are each \<open>None\<close> or an integer, and
  \<open>thumbnail_is_square\<close> is true exactly when both are integers and equal. The
  selection filter plays no part: in the example below the only candidate is 0 by 0, is
  not square for the filter, is picked by the largest-area fallback and is reported
  square.
\<close>

theorem square_flag_is_equality:
  "download n w url ov h = Some (Inr meta, h') \<longrightarrow>
     dget meta ''thumbnail_is_square'' =
       PBool (\<exists>k. dget meta ''thumbnail_width'' = PInt k \<and>
                  dget meta ''thumbnail_height'' = PInt k) \<and>
     (dget meta ''thumbnail_width'' = PNone \<or> (\<exists>k. dget meta ''thumbnail_width'' = PInt k)) \<and>
     (dget meta ''thumbnail_height'' = PNone \<or> (\<exists>k. dget meta ''thumbnail_height'' = PInt k))"
proof
  assume "download n w url ov h = Some (Inr meta, h')"
  from download_result_meta [OF this] obtain info fp turl ov' where
    "build_meta (int_of_str w) (path_stem w) info fp turl ov' = Inr meta" by blast
  from build_meta_square_flag [OF this]
  show "dget meta ''thumbnail_is_square'' =
       PBool (\<exists>k. dget meta ''thumbnail_width'' = PInt k \<and>
                  dget meta ''thumbnail_height'' = PInt k) \<and>
     (dget meta ''thumbnail_width'' = PNone \<or> (\<exists>k. dget meta ''thumbnail_width'' = PInt k)) \<and>
     (dget meta ''thumbnail_height'' = PNone \<or> (\<exists>k. dget meta ''thumbnail_height'' = PInt k))"
    by blast
qed

theorem square_flag_is_equality_witness:
  "download 1 example_world ''https://example.com/v2'' None [] =
     Some (Inr [(''path'', PStr ''/tmp/up-id.m4a''),
                (''original_url'', PStr ''https://example.com/v2''),
                (''title'', PStr ''Clip''), (''artists'', PList [PStr ''Unknown Artist'']),
                (''thumbnail_url'', PStr ''z''), (''thumbnail_width'', PInt 0),
                (''thumbnail_height'', PInt 0), (''thumbnail_is_square'', PBool True)],
           [Mkdir ''/tmp'', Mkdir ''/home/u/Library/Caches/yt-dlp'',
            Print ''Downloading video from: https://example.com/v2'',
            Print ''Downloading video to: /tmp'',
            Print ''Using cache dir: /home/u/Library/Caches/yt-dlp'',
            ExtractInfo ''https://example.com/v2'',
            Print ''Downloaded file: /tmp/up-id.m4a'']) \<and>
   \<not> is_square (\<lambda>s. None)
       (PDict [(''url'', PStr ''z''), (''width'', PInt 0), (''height'', PInt 0)]) \<and>
   (\<exists>k. dget [(''path'', PStr ''/tmp/up-id.m4a''),
              (''original_url'', PStr ''https://example.com/v2''),
              (''title'', PStr ''Clip''), (''artists'', PList [PStr ''Unknown Artist'']),
              (''thumbnail_url'', PStr ''z''), (''thumbnail_width'', PInt 0),
              (''thumbnail_height'', PInt 0), (''thumbnail_is_square'', PBool True)]
           ''thumbnail_width'' = PInt k \<and>
        dget [(''path'', PStr ''/tmp/up-id.m4a''),
              (''original_url'', PStr ''https://example.com/v2''),
              (''title'', PStr ''Clip''), (''artists'', PList [PStr ''Unknown Artist'']),
              (''thumbnail_url'', PStr ''z''), (''thumbnail_width'', PInt 0),
              (''thumbnail_height'', PInt 0), (''thumbnail_is_square'', PBool True)]
           ''thumbnail_height'' = PInt k)"
proof -
  let ?meta = "[(''path'', PStr ''/tmp/up-id.m4a''),
                (''original_url'', PStr ''https://example.com/v2''),
                (''title'', PStr ''Clip''), (''artists'', PList [PStr ''Unknown Artist'']),
                (''thumbnail_url'', PStr ''z''), (''thumbnail_width'', PInt 0),
                (''thumbnail_height'', PInt 0), (''thumbnail_is_square'', PBool True)]"
  let ?h = "[Mkdir ''/tmp'', Mkdir ''/home/u/Library/Caches/yt-dlp'',
            Print ''Downloading video from: https://example.com/v2'',
            Print ''Downloading video to: /tmp'',
            Print ''Using cache dir: /home/u/Library/Caches/yt-dlp'',
            ExtractInfo ''https://example.com/v2'',
            Print ''Downloaded file: /tmp/up-id.m4a'']"
  have d: "download 1 example_world ''https://example.com/v2'' None [] = Some (Inr ?meta, ?h)"
    by code_simp
  have n: "\<not> is_square (\<lambda>s. None)
       (PDict [(''url'', PStr ''z''), (''width'', PInt 0), (''height'', PInt 0)])"
    by (simp add: is_square_def dget_def py_or_def)
  have f: "dget ?meta ''thumbnail_is_square'' = PBool True"
    by (simp add: dget_def)
  from square_flag_is_equality [of 1 example_world "''https://example.com/v2''" None "[]" ?meta ?h]
    d f
  have "\<exists>k. dget ?meta ''thumbnail_width'' = PInt k \<and> dget ?meta ''thumbnail_height'' = PInt k"
    by simp
  with d n show ?thesis by blast
qed

section \<open>The empty reference\<close>

text \<open>
  Claim C9. For a URL that is empty after trimming, \<open>download\<close> raises
  \<open>ValueError("URL cannot be empty")\<close> and the history of external events is returned
  as it was: no directory is created, nothing is fetched, extracted or searched, and the
  result does not depend on the world.
\<close>

theorem empty_reference_fails_first:
  "strip url = [] \<longrightarrow>
     download (Suc n) w url ov h = Some (Inl (ValueError ''URL cannot be empty''), h)"
  by (simp add: download_Suc)

theorem empty_reference_fails_first_witness:
  "strip [CHR 0x20, CHR 0x09, CHR 0x0A] = [] \<and>
   download 1 example_world [CHR 0x20, CHR 0x09, CHR 0x0A] None [] =
     Some (Inl (ValueError ''URL cannot be empty''), [])"
proof -
  have s: "strip [CHR 0x20, CHR 0x09, CHR 0x0A] = []"
    by (simp add: strip_def is_space_def)
  from empty_reference_fails_first [of "[CHR 0x20, CHR 0x09, CHR 0x0A]" 0 example_world None "[]"] s
  show ?thesis by simp
qed

section \<open>Caller overrides on the Spotify path\<close>







section \<open>Recursion depth\<close>

lemma looping_lookup:
  "spotify_lookup looping_world ''ABC123'' h =
     (Inr (''T'', [''X''], ''https://open.spotify.com/track/ABC123''),
      h @ [HttpGet ''https://open.spotify.com/embed/track/ABC123?utm_source=oembed'',
           SearchYoutube ''T X'',
           Print ''Searching YouTube for Spotify track using search query: T X''])"
  by (simp add: spotify_lookup_def looping_world_def example_world_def script_text_of_def
      spotify_metadata_def spotify_entity_def spotify_title_def example_payload_def
      top_result_url_def dget_def py_or_def strip_def is_space_def Let_def)

lemma looping_track:
  "spotify_track_id (urlparse looping_world) ''https://open.spotify.com/track/ABC123'' =
     Inr (Some ''ABC123'')"
  by code_simp

lemma looping_strip:
  "strip ''https://open.spotify.com/track/ABC123'' = ''https://open.spotify.com/track/ABC123''"
  by code_simp

lemma looping_forever:
  "download n looping_world ''https://open.spotify.com/track/ABC123'' ov h = None"
proof (induction n arbitrary: ov h)
  case 0
  show ?case by simp
next
  case (Suc n)
  have "strip ''https://open.spotify.com/track/ABC123'' \<noteq> []"
    by (simp add: looping_strip)
  from download_Suc_spotify [OF this looping_track, of n ov h]
  show ?case by (simp add: looping_lookup looping_strip Suc.IH)
qed

text \<open>
  Claim C10. Assume that no URL which the Spotify lookup of the world returns as first
  search result is itself a Spotify track URL. Then two frames of \<open>download\<close> are
  enough for every call; one frame is enough for a reference that is not a Spotify track
  URL; and for a Spotify track URL whose lookup succeeds, one frame is not enough, the
  call is the call of \<open>download\<close> on the trimmed search result with the merged
  overrides, and that inner call needs one frame only. Without the assumption nothing
  bounds the depth: in the world whose search returns the Spotify track itself, no number
  of frames is enough.
\<close>

theorem recursion_depth:
  assumes "\<forall>tid h0 t a u h1 x. spotify_lookup w tid h0 = (Inr (t, a, u), h1) \<longrightarrow>
             spotify_track_id (urlparse w) u \<noteq> Inr (Some x)"
  shows "(\<exists>r. download 2 w url ov h = Some r) \<and>
     ((\<forall>x. spotify_track_id (urlparse w) url \<noteq> Inr (Some x)) \<longrightarrow>
        (\<exists>r. download 1 w url ov h = Some r)) \<and>
     (\<forall>tid t a u h1.
        strip url \<noteq> [] \<and> spotify_track_id (urlparse w) url = Inr (Some tid) \<and>
        spotify_lookup w tid h = (Inr (t, a, u), h1) \<longrightarrow>
          download 1 w url ov h = None \<and>
          download 2 w url ov h = download 1 w (strip u) (Some (merge_overrides ov t a)) h1 \<and>
          (\<exists>r. download 1 w (strip u) (Some (merge_overrides ov t a)) h1 = Some r)) \<and>
     (\<forall>n. download n looping_world ''https://open.spotify.com/track/ABC123'' ov h = None)"
proof (intro conjI allI impI)
  have direct: "\<exists>r. download (Suc k) w v ov' h' = Some r"
    if "\<forall>x. spotify_track_id (urlparse w) v \<noteq> Inr (Some x)" for k v ov' h'
  proof (cases "strip v = []")
    case True
    then show ?thesis by (simp add: download_Suc)
  next
    case False
    from download_Suc_not_spotify [OF False that, of k ov' h']
    show ?thesis by (auto split: sum.splits)
  qed
  have inner: "\<exists>r. download (Suc k) w (strip u) ov' h1 = Some r"
    if "spotify_lookup w tid h0 = (Inr (t, a, u), h1)" for k tid h0 t a u h1 ov'
  proof -
    from assms that have "\<forall>x. spotify_track_id (urlparse w) u \<noteq> Inr (Some x)" by blast
    then have "\<forall>x. spotify_track_id (urlparse w) (strip u) \<noteq> Inr (Some x)"
      by (simp add: spotify_track_id_strip)
    then show ?thesis by (rule direct)
  qed
  show "\<exists>r. download 2 w url ov h = Some r"
  proof (cases "strip url = []")
    case True
    then show ?thesis by (simp add: download_Suc numeral_2_eq_2)
  next
    case False
    show ?thesis
    proof (cases "\<exists>tid. spotify_track_id (urlparse w) url = Inr (Some tid)")
      case True
      then obtain tid where tid: "spotify_track_id (urlparse w) url = Inr (Some tid)" by blast
      show ?thesis
      proof (cases "spotify_lookup w tid h")
        case (Pair res h1)
        show ?thesis
        proof (cases res)
          case (Inl e)
          with Pair download_Suc_spotify [OF False tid, of 1 ov h] show ?thesis
            by (simp add: numeral_2_eq_2)
        next
          case (Inr tau)
          obtain t a u where tau: "tau = (t, a, u)" by (cases tau) auto
          from Pair Inr tau have l: "spotify_lookup w tid h = (Inr (t, a, u), h1)" by simp
          from inner [OF l, of 0 "Some (merge_overrides ov t a)"]
            download_Suc_spotify [OF False tid, of 1 ov h] l
          show ?thesis by (simp add: numeral_2_eq_2)
        qed
      qed
    next
      case False
      then have "\<forall>x. spotify_track_id (urlparse w) url \<noteq> Inr (Some x)" by blast
      from direct [OF this, of 1 ov h] show ?thesis by (simp add: numeral_2_eq_2)
    qed
  qed
  show "\<exists>r. download 1 w url ov h = Some r"
    if "\<forall>x. spotify_track_id (urlparse w) url \<noteq> Inr (Some x)"
    using direct [OF that, of 0 ov h] by simp
  show "download n looping_world ''https://open.spotify.com/track/ABC123'' ov h = None" for n
    by (rule looping_forever)
  fix tid t a u h1
  assume c: "strip url \<noteq> [] \<and> spotify_track_id (urlparse w) url = Inr (Some tid) \<and>
        spotify_lookup w tid h = (Inr (t, a, u), h1)"
  then have nb: "strip url \<noteq> []" and tid: "spotify_track_id (urlparse w) url = Inr (Some tid)"
    and l: "spotify_lookup w tid h = (Inr (t, a, u), h1)" by simp_all
  from download_Suc_spotify [OF nb tid, of 0 ov h] l
  show "download 1 w url ov h = None" by simp
  from download_Suc_spotify [OF nb tid, of 1 ov h] l
  show "download 2 w url ov h = download 1 w (strip u) (Some (merge_overrides ov t a)) h1"
    by (simp add: numeral_2_eq_2)
  from inner [OF l, of 0 "Some (merge_overrides ov t a)"]
  show "\<exists>r. download 1 w (strip u) (Some (merge_overrides ov t a)) h1 = Some r" by simp
qed

lemma example_lookup_url:
  assumes "spotify_lookup example_world tid h0 = (Inr (t, a, u), h1)"
  shows "u = ''https://example.com/v1''"
  using assms
  by (auto simp: spotify_lookup_def example_world_def Let_def top_result_url_def dget_def
      py_or_def split: if_splits sum.splits option.splits prod.splits)

lemma example_not_spotify:
  "spotify_track_id (urlparse example_world) ''https://example.com/v1'' = Inr None"
  by code_simp

theorem recursion_depth_witness:
  "(\<exists>r. download 2 example_world ''https://open.spotify.com/track/ABC123'' None [] = Some r) \<and>
   (\<exists>r. download 1 example_world ''https://example.com/v1'' None [] = Some r) \<and>
   download 1 example_world ''https://open.spotify.com/track/ABC123'' None [] = None \<and>
   download 2 example_world ''https://open.spotify.com/track/ABC123'' None [] =
     download 1 example_world (strip ''https://example.com/v1'')
       (Some (merge_overrides None ''T'' [''X'']))
       [HttpGet ''https://open.spotify.com/embed/track/ABC123?utm_source=oembed'',
        SearchYoutube ''T X'',
        Print ''Searching YouTube for Spotify track using search query: T X''] \<and>
   download 3 looping_world ''https://open.spotify.com/track/ABC123'' None [] = None"
proof -
  let ?sp = "''https://open.spotify.com/track/ABC123''"
  let ?h1 = "[HttpGet ''https://open.spotify.com/embed/track/ABC123?utm_source=oembed'',
        SearchYoutube ''T X'',
        Print ''Searching YouTube for Spotify track using search query: T X'']"
  have pre: "\<forall>tid h0 t a u h1 x.
      spotify_lookup example_world tid h0 = (Inr (t, a, u), h1) \<longrightarrow>
      spotify_track_id (urlparse example_world) u \<noteq> Inr (Some x)"
    using example_lookup_url example_not_spotify by fastforce
  have ns: "\<forall>x. spotify_track_id (urlparse example_world) ''https://example.com/v1'' \<noteq> Inr (Some x)"
    by (simp add: example_not_spotify)
  have c: "strip ?sp \<noteq> [] \<and> spotify_track_id (urlparse example_world) ?sp = Inr (Some ''ABC123'') \<and>
      spotify_lookup example_world ''ABC123'' [] = (Inr (''T'', [''X''], ''https://example.com/v1''), ?h1)"
    by code_simp
  from recursion_depth [OF pre, of ?sp None "[]"] c
  have a: "(\<exists>r. download 2 example_world ?sp None [] = Some r) \<and>
     download 1 example_world ?sp None [] = None \<and>
     download 2 example_world ?sp None [] =
       download 1 example_world (strip ''https://example.com/v1'')
         (Some (merge_overrides None ''T'' [''X''])) ?h1 \<and>
     download 3 looping_world ?sp None [] = None"
    by blast
  from recursion_depth [OF pre, of "''https://example.com/v1''" None "[]"] ns
  have b: "\<exists>r. download 1 example_world ''https://example.com/v1'' None [] = Some r"
    by blast
  from a b show ?thesis by blast
qed

section \<open>The identifier resolver: proofs\<close>

text \<open>
  Claim C5, as amended. When the URL parser returns a result for the trimmed reference,
  \<open>_spotify_track_id\<close> returns without raising, and it returns the track id \<open>tid\<close>
  exactly when the scheme is \<open>http\<close> or \<open>https\<close>, the lower-cased host is
  \<open>open.spotify.com\<close>, the non-empty segments of the path are \<open>track\<close> and one more
  segment, and \<open>tid\<close> is that segment trimmed and alphanumeric (so not empty); otherwise
  it returns \<open>None\<close>. When the parser raises, the resolver raises the same exception.
\<close>

theorem resolver_characterisation:
  "(up (strip url) = Inr p \<longrightarrow>
      (\<exists>r. spotify_track_id up url = Inr r) \<and>
      (spotify_track_id up url = Inr (Some tid) \<longleftrightarrow>
         (scheme p = ''http'' \<or> scheme p = ''https'') \<and>
         lower (case hostname p of None \<Rightarrow> [] | Some hn \<Rightarrow> hn) = ''open.spotify.com'' \<and>
         (\<exists>seg. filter (\<lambda>part. part \<noteq> []) (split_on CHR ''/'' (path p)) = [''track'', seg] \<and>
                tid = strip seg \<and> isalnum tid))) \<and>
   (up (strip url) = Inl e \<longrightarrow> spotify_track_id up url = Inl e)"
proof (intro conjI impI)
  assume e: "up (strip url) = Inl e"
  then show "spotify_track_id up url = Inl e" by (simp add: spotify_track_id_def)
next
  assume p: "up (strip url) = Inr p"
  then show "\<exists>r. spotify_track_id up url = Inr r"
    by (simp add: spotify_track_id_def Let_def)
  let ?parts = "filter (\<lambda>part. part \<noteq> []) (split_on CHR ''/'' (path p))"
  show "spotify_track_id up url = Inr (Some tid) \<longleftrightarrow>
         (scheme p = ''http'' \<or> scheme p = ''https'') \<and>
         lower (case hostname p of None \<Rightarrow> [] | Some hn \<Rightarrow> hn) = ''open.spotify.com'' \<and>
         (\<exists>seg. ?parts = [''track'', seg] \<and> tid = strip seg \<and> isalnum tid)"
  proof
    assume "spotify_track_id up url = Inr (Some tid)"
    with p have s: "scheme p = ''http'' \<or> scheme p = ''https''"
      and h: "lower (case hostname p of None \<Rightarrow> [] | Some hn \<Rightarrow> hn) = ''open.spotify.com''"
      and l: "length ?parts = 2" and f: "?parts ! 0 = ''track''"
      and t: "tid = strip (?parts ! 1)" and a: "isalnum tid"
      by (auto simp: spotify_track_id_def Let_def split: if_splits)
    from l obtain x y where xy: "?parts = [x, y]"
      by (cases ?parts; cases "tl ?parts") auto
    with f t have "?parts = [''track'', ?parts ! 1] \<and> tid = strip (?parts ! 1)" by simp
    with s h a show "(scheme p = ''http'' \<or> scheme p = ''https'') \<and>
         lower (case hostname p of None \<Rightarrow> [] | Some hn \<Rightarrow> hn) = ''open.spotify.com'' \<and>
         (\<exists>seg. ?parts = [''track'', seg] \<and> tid = strip seg \<and> isalnum tid)"
      by blast
  next
    assume "(scheme p = ''http'' \<or> scheme p = ''https'') \<and>
         lower (case hostname p of None \<Rightarrow> [] | Some hn \<Rightarrow> hn) = ''open.spotify.com'' \<and>
         (\<exists>seg. ?parts = [''track'', seg] \<and> tid = strip seg \<and> isalnum tid)"
    then obtain seg where "scheme p = ''http'' \<or> scheme p = ''https''"
      "lower (case hostname p of None \<Rightarrow> [] | Some hn \<Rightarrow> hn) = ''open.spotify.com''"
      "?parts = [''track'', seg]" "tid = strip seg" "isalnum tid" by blast
    with p show "spotify_track_id up url = Inr (Some tid)"
      by (auto simp: spotify_track_id_def Let_def isalnum_def)
  qed
qed

theorem resolver_characterisation_witness:
  "py_urlparse (\<lambda>host. True) (\<lambda>netloc. True) (strip ''https://open.spotify.com/track/ABC123'') =
     Inr \<lparr>scheme = ''https'', hostname = Some ''open.spotify.com'', path = ''/track/ABC123''\<rparr> \<and>
   spotify_track_id (py_urlparse (\<lambda>host. True) (\<lambda>netloc. True))
     ''https://open.spotify.com/track/ABC123'' = Inr (Some ''ABC123'') \<and>
   spotify_track_id (py_urlparse (\<lambda>host. True) (\<lambda>netloc. True))
     ''https://example.com/x'' = Inr None \<and>
   spotify_track_id (py_urlparse (\<lambda>host. True) (\<lambda>netloc. True))
     ''https://open.spotify.com/track/ABC123/extra'' = Inr None \<and>
   spotify_track_id (py_urlparse (\<lambda>host. True) (\<lambda>netloc. True))
     ''https://open.spotify.com/album/ABC123'' = Inr None"
proof -
  let ?up = "py_urlparse (\<lambda>host. True) (\<lambda>netloc. True)"
  let ?p = "\<lparr>scheme = ''https'', hostname = Some ''open.spotify.com'', path = ''/track/ABC123''\<rparr>"
  have p: "?up (strip ''https://open.spotify.com/track/ABC123'') = Inr ?p"
    by code_simp
  have c: "lower (case hostname ?p of None \<Rightarrow> [] | Some hn \<Rightarrow> hn) = ''open.spotify.com'' \<and>
      filter (\<lambda>part. part \<noteq> []) (split_on CHR ''/'' (path ?p)) = [''track'', ''ABC123''] \<and>
      ''ABC123'' = strip ''ABC123'' \<and> isalnum ''ABC123''"
    by code_simp
  from resolver_characterisation [of ?up "''https://open.spotify.com/track/ABC123''" ?p "''ABC123''"]
    p c
  have a: "spotify_track_id ?up ''https://open.spotify.com/track/ABC123'' = Inr (Some ''ABC123'')"
    by auto
  have b: "spotify_track_id ?up ''https://example.com/x'' = Inr None"
    "spotify_track_id ?up ''https://open.spotify.com/track/ABC123/extra'' = Inr None"
    "spotify_track_id ?up ''https://open.spotify.com/album/ABC123'' = Inr None"
    by code_simp+
  from p a b show ?thesis by simp
qed

text \<open>
  Claim C5 as stated fails where the parser raises: an authority with an unmatched
  square bracket makes \<open>urlparse\<close> raise \<open>ValueError\<close>, and the resolver with it.
\<close>

theorem resolver_raises_counterexample:
  "spotify_track_id (py_urlparse (\<lambda>host. True) (\<lambda>netloc. True)) ''http://['' =
     Inl (ValueError ''Invalid IPv6 URL'')"
  by code_simp

section \<open>The Spotify payload: proofs\<close>

text \<open>
  A level of the path whose key is missing gives the empty entity, and so does a level
  that is \<open>null\<close>, except at \<open>data\<close>, where only a missing key is covered. The empty
  entity fails with the incomplete-metadata error.
\<close>

lemma spotify_entity_missing:
  "map_of d ''props'' = None \<or> map_of d ''props'' = Some PNone \<Longrightarrow>
     spotify_entity (PDict d) = Inr (PDict [])"
  "map_of d ''props'' = Some (PDict d1) \<Longrightarrow>
     map_of d1 ''pageProps'' = None \<or> map_of d1 ''pageProps'' = Some PNone \<Longrightarrow>
     spotify_entity (PDict d) = Inr (PDict [])"
  "map_of d ''props'' = Some (PDict d1) \<Longrightarrow> map_of d1 ''pageProps'' = Some (PDict d2) \<Longrightarrow>
     map_of d2 ''state'' = None \<or> map_of d2 ''state'' = Some PNone \<Longrightarrow>
     spotify_entity (PDict d) = Inr (PDict [])"
  "map_of d ''props'' = Some (PDict d1) \<Longrightarrow> map_of d1 ''pageProps'' = Some (PDict d2) \<Longrightarrow>
     map_of d2 ''state'' = Some (PDict d3) \<Longrightarrow> map_of d3 ''data'' = None \<Longrightarrow>
     spotify_entity (PDict d) = Inr (PDict [])"
  "map_of d ''props'' = Some (PDict d1) \<Longrightarrow> map_of d1 ''pageProps'' = Some (PDict d2) \<Longrightarrow>
     map_of d2 ''state'' = Some (PDict d3) \<Longrightarrow> map_of d3 ''data'' = Some (PDict d4) \<Longrightarrow>
     map_of d4 ''entity'' = None \<or> map_of d4 ''entity'' = Some PNone \<Longrightarrow>
     spotify_entity (PDict d) = Inr (PDict [])"
  by (auto simp: spotify_entity_def dget_def py_or_def split: option.splits)

lemma spotify_metadata_empty_entity:
  "spotify_entity payload = Inr (PDict []) \<Longrightarrow>
   spotify_metadata payload =
     Inl (ValueError ''Spotify track metadata is missing title or artists'')"
  by (simp add: spotify_metadata_def spotify_title_def dget_def py_or_def strip_def)

text \<open>
  A page without the script tag, or with an empty one, fails with the missing-payload error
  whatever the JSON parser would do.
\<close>

lemma missing_payload_before_parsing:
  assumes "track_id \<noteq> []"
    and "http_get w h (''https://open.spotify.com/embed/track/'' @ track_id @ ''?utm_source=oembed'') =
           Inr (200, text)"
    and "script_text_of (find_script w text) = []"
  shows "spotify_lookup (w\<lparr>json_loads := parse\<rparr>) track_id h =
     (Inl (ValueError ''Spotify embed page is missing __NEXT_DATA__ JSON''),
      h @ [HttpGet (''https://open.spotify.com/embed/track/'' @ track_id @ ''?utm_source=oembed'')])"
  using assms by (simp add: spotify_lookup_def Let_def)

text \<open>
  Claim C6 at the input where the code departs from it: with \<open>"data": null\<close> the
  navigation raises \<open>AttributeError\<close> instead of yielding the empty entity, while
  \<open>"state": null\<close> one level up yields the empty entity and the incomplete-metadata
  error.
\<close>

theorem null_data_level_raises:
  "spotify_metadata
     (PDict [(''props'', PDict [(''pageProps'', PDict [(''state'',
        PDict [(''data'', PNone)])])])]) = Inl AttributeError \<and>
   spotify_metadata
     (PDict [(''props'', PDict [(''pageProps'', PDict [(''state'',
        PNone)])])]) =
     Inl (ValueError ''Spotify track metadata is missing title or artists'')"
  by (simp add: spotify_metadata_def spotify_entity_def spotify_title_def dget_def py_or_def
      strip_def)

section \<open>The log-capturing invoker: proofs\<close>

lemma length_files_append_to [simp]: "length (files (append_to i text s)) = length (files s)"
  by (simp add: append_to_def)

lemma sys_append_to [simp]:
  "sys_stdout (append_to i text s) = sys_stdout s" "sys_stderr (append_to i text s) = sys_stderr s"
  by (simp_all add: append_to_def)


lemma length_files_perform [simp]: "length (files (perform s a)) = length (files s)"
  by (induction s a rule: perform.induct) simp_all

lemma length_files_foldl_perform [simp]:
  "length (files (foldl perform s acts)) = length (files s)"
  by (induction acts arbitrary: s) simp_all












end
